theory Spec2Isabelle
  imports Main
begin

section \<open>The conda module: data model\<close>

text \<open>
  The module \<^verbatim>\<open>lib/ansible/modules/packaging/os/conda.py\<close> drives the \<^verbatim>\<open>conda\<close>
  command line tool. Everything it does beyond computing a value is made explicit here:
  \<^item> the values \<^verbatim>\<open>json.loads\<close> produces are the datatype \<open>json\<close>;
  \<^item> \<^verbatim>\<open>module.fail_json\<close> (which exits the process) and the Python exceptions the
    code can raise are values of \<open>error\<close>, and every operation returns
    \<open>error + 'a\<close>;
  \<^item> every call of \<^verbatim>\<open>module.run_command\<close> is appended to a log of command vectors,
    threaded through the operations; what the tool answers may depend on the
    invocations made before.
  A string is the list of the bytes of its UTF-8 encoding. Splitting at \<open>=\<close>, looking
  for the path separator or for a substring of ASCII characters, and comparing two
  strings give on the encodings what Python gives on the code points.
\<close>

datatype json =
    JNull
  | JBool bool
  | JInt int
  | JFloat string  \<comment> \<open>a float, kept as its literal; the module never looks inside one\<close>
  | JStr string
  | JArr "json list"
  | JObj "(string \<times> json) list"  \<comment> \<open>a dict, keys in insertion order\<close>

datatype error =
    FailJson "string list" string "int option" string string
      \<comment> \<open>\<^verbatim>\<open>fail_json(command=, msg=, rc=, stdout=, stderr=)\<close>; rc is absent on a parse failure\<close>
  | BinPathNotFound  \<comment> \<open>\<^verbatim>\<open>get_bin_path(required=True)\<close> found nothing and failed the module\<close>
  | TypeError
  | KeyError
  | UnboundLocalError

text \<open>
  \<^verbatim>\<open>Result = namedtuple("Result", "changed cmd rc stdout_json stderr")\<close>.
  The field \<open>cmd\<close> holds a list of strings when a command ran and the empty
  string in the result \<open>remove\<close> makes up, so it has both shapes.
\<close>

datatype cmd_value = CmdStr string | CmdList "string list"

record result =
  res_changed :: bool
  res_cmd :: cmd_value
  res_rc :: int
  res_stdout_json :: json
  res_stderr :: string

section \<open>Change detection\<close>

fun starts_with :: "string \<Rightarrow> string \<Rightarrow> bool" where
  "starts_with [] _ = True"
| "starts_with (x # xs) [] = False"
| "starts_with (x # xs) (y # ys) = (x = y \<and> starts_with xs ys)"

fun str_contains :: "string \<Rightarrow> string \<Rightarrow> bool" where
  "str_contains needle [] = starts_with needle []"
| "str_contains needle (y # ys) = (starts_with needle (y # ys) \<or> str_contains needle ys)"

text \<open>
  Python's \<^verbatim>\<open>key in value\<close> for a string key: key membership on a dict, element
  membership on a list, substring test on a string, \<^verbatim>\<open>TypeError\<close> on anything else.
\<close>

fun py_in :: "string \<Rightarrow> json \<Rightarrow> error + bool" where
  "py_in k (JObj kvs) = Inr (k \<in> set (map fst kvs))"
| "py_in k (JArr xs) = Inr (JStr k \<in> set xs)"
| "py_in k (JStr s) = Inr (str_contains k s)"
| "py_in k _ = Inl TypeError"

definition changed :: "json \<Rightarrow> error + bool" where
  "changed stdout_json =
     (case py_in ''actions'' stdout_json of
        Inl e \<Rightarrow> Inl e
      | Inr b \<Rightarrow> Inr (if \<not> b then False else True))"

section \<open>What the module is given\<close>

text \<open>
  The parts of the Python runtime the module relies on and that the language or the
  platform leaves open:
  \<^item> \<^verbatim>\<open>os.path.sep\<close>, the platform's path separator;
  \<^item> \<^verbatim>\<open>json.loads\<close>: \<open>None\<close> stands for the \<^verbatim>\<open>ValueError\<close> it raises on text
    that is not JSON;
  \<^item> \<^verbatim>\<open>str.lower\<close>, which follows the case mapping of the Unicode version the
    interpreter was built with; nothing is assumed about it;
  \<^item> the order in which Python iterates over a set. A set of strings is modelled by
    the list of its members, each once; \<open>set_iter\<close> gives the order in which
    they come out when the set is unpacked into arguments.
\<close>

record runtime =
  os_path_sep :: char
  json_loads :: "string \<Rightarrow> json option"
  str_lower :: "string \<Rightarrow> string"
  set_iter :: "string list \<Rightarrow> string list"

datatype state = Present | Absent | Latest

text \<open>
  The \<^verbatim>\<open>AnsibleModule\<close> object: the parameters declared in \<^verbatim>\<open>run_module\<close>, the check
  mode flag, the outcome of
  \<^verbatim>\<open>get_bin_path("conda", required=True, opt_dirs=["/opt/conda/bin"])\<close>
  (\<open>None\<close> when nothing is found) and \<^verbatim>\<open>run_command\<close>, which maps the invocations
  made so far and a command vector to exit code, standard output and standard error.
\<close>

record ansible_module =
  param_name :: "string list"
  param_state :: state
  param_executable :: "string option"
  param_environment :: string
  param_channels :: "string list"
  check_mode :: bool
  get_bin_path :: "string option"
  run_command :: "string list list \<Rightarrow> string list \<Rightarrow> int \<times> string \<times> string"

section \<open>The class Conda\<close>

record conda =
  module :: ansible_module
  executable :: string
  environment :: string
  env_args :: "string list"
  default_args :: "string list"

text \<open>
  \<^verbatim>\<open>Conda.__init__\<close>. \<^verbatim>\<open>params["executable"] or get_bin_path(...)\<close> takes the parameter
  unless it is \<^verbatim>\<open>None\<close> or the empty string.
\<close>

definition init :: "runtime \<Rightarrow> ansible_module \<Rightarrow> error + conda" where
  "init rt m =
     (case (case param_executable m of
              Some e \<Rightarrow> if e \<noteq> [] then Some e else get_bin_path m
            | None \<Rightarrow> get_bin_path m) of
        None \<Rightarrow> Inl BinPathNotFound
      | Some exe \<Rightarrow>
          (let env = param_environment m;
               env_flag = (if os_path_sep rt \<in> set env then ''--prefix'' else ''--name'');
               eargs = [env_flag, env];
               dargs = [''-y''] @ eargs;
               dargs = foldl (\<lambda>acc channel. acc @ [''--channel'', channel]) dargs
                         (param_channels m);
               dargs = (if check_mode m then dargs @ [''--dry-run''] else dargs)
           in Inr \<lparr>module = m, executable = exe, environment = env,
                    env_args = eargs, default_args = dargs\<rparr>))"

text \<open>
  \<^verbatim>\<open>run_conda(cmd, *args, fail_on_error=True, add_default_args=True)\<close>. The command
  vector is logged when \<^verbatim>\<open>run_command\<close> is called, before any failure is decided.
\<close>

definition run_conda ::
  "runtime \<Rightarrow> conda \<Rightarrow> string \<Rightarrow> string list \<Rightarrow> bool \<Rightarrow> bool \<Rightarrow> string list list
     \<Rightarrow> (error + result) \<times> string list list" where
  "run_conda rt c cmd args fail_on_error add_default_args log =
     (let cmd1 = [executable c, cmd] @ [''--quiet'', ''--json''];
          cmd2 = (if add_default_args then cmd1 @ default_args c else cmd1);
          cmd3 = cmd2 @ args;
          (rc, stdout, stderr) = run_command (module c) log cmd3;
          log1 = log @ [cmd3]
      in if fail_on_error \<and> rc \<noteq> 0
         then (Inl (FailJson cmd3 ''Command failed'' (Some rc) stdout stderr), log1)
         else (case json_loads rt stdout of
                 None \<Rightarrow>
                   (Inl (FailJson cmd3 ''Failed to parse the output of the command'' None
                           stdout stderr), log1)
               | Some stdout_json \<Rightarrow>
                   (case changed stdout_json of
                      Inl e \<Rightarrow> (Inl e, log1)
                    | Inr ch \<Rightarrow>
                        (Inr \<lparr>res_changed = ch, res_cmd = CmdList cmd3, res_rc = rc,
                               res_stdout_json = stdout_json, res_stderr = stderr\<rparr>, log1))))"

text \<open>
  Iterating over a parsed value, and \<^verbatim>\<open>value[key]\<close> with a string key. A string
  gives one item for each byte here and one for each code point in Python; the only
  use made of the items, \<open>names_of\<close>, fails on the first one either way.
\<close>

fun py_iter :: "json \<Rightarrow> error + json list" where
  "py_iter (JArr xs) = Inr xs"
| "py_iter (JObj kvs) = Inr (map (\<lambda>kv. JStr (fst kv)) kvs)"
| "py_iter (JStr s) = Inr (map (\<lambda>ch. JStr [ch]) s)"
| "py_iter _ = Inl TypeError"

fun py_getitem :: "json \<Rightarrow> string \<Rightarrow> error + json" where
  "py_getitem (JObj kvs) k = (case map_of kvs k of None \<Rightarrow> Inl KeyError | Some v \<Rightarrow> Inr v)"
| "py_getitem _ k = Inl TypeError"

text \<open>The comprehension \<^verbatim>\<open>[pkg["name"] for pkg in ...]\<close>.\<close>

fun names_of :: "json list \<Rightarrow> error + json list" where
  "names_of [] = Inr []"
| "names_of (pkg # pkgs) =
     (case py_getitem pkg ''name'' of
        Inl e \<Rightarrow> Inl e
      | Inr n \<Rightarrow> (case names_of pkgs of Inl e \<Rightarrow> Inl e | Inr ns \<Rightarrow> Inr (n # ns)))"

definition list_packages ::
  "runtime \<Rightarrow> conda \<Rightarrow> string list list \<Rightarrow> (error + json list) \<times> string list list" where
  "list_packages rt c log =
     (case run_conda rt c ''list'' (env_args c) True False log of
        (Inl e, log1) \<Rightarrow> (Inl e, log1)
      | (Inr r, log1) \<Rightarrow>
          (case py_iter (res_stdout_json r) of
             Inl e \<Rightarrow> (Inl e, log1)
           | Inr pkgs \<Rightarrow>
               (case names_of pkgs of
                  Inl e \<Rightarrow> (Inl e, log1)
                | Inr ns \<Rightarrow> (Inr ns, log1))))"

definition env_exists ::
  "runtime \<Rightarrow> conda \<Rightarrow> string list list \<Rightarrow> (error + bool) \<times> string list list" where
  "env_exists rt c log =
     (case run_conda rt c ''list'' (env_args c) False False log of
        (Inl e, log1) \<Rightarrow> (Inl e, log1)
      | (Inr r, log1) \<Rightarrow> (Inr (res_rc r = 0), log1))"

definition install ::
  "runtime \<Rightarrow> conda \<Rightarrow> string list \<Rightarrow> string list list
     \<Rightarrow> (error + result) \<times> string list list" where
  "install rt c packages log = run_conda rt c ''install'' (''-S'' # packages) True True log"

definition update ::
  "runtime \<Rightarrow> conda \<Rightarrow> string list \<Rightarrow> string list list
     \<Rightarrow> (error + result) \<times> string list list" where
  "update rt c packages log = run_conda rt c ''update'' packages True True log"

definition create ::
  "runtime \<Rightarrow> conda \<Rightarrow> string list \<Rightarrow> string list list
     \<Rightarrow> (error + result) \<times> string list list" where
  "create rt c packages log = run_conda rt c ''create'' packages True True log"

text \<open>The command vector of the listing query, which is built without the default arguments.\<close>

abbreviation listing_cmd :: "conda \<Rightarrow> string list" where
  "listing_cmd c \<equiv> [executable c, ''list'', ''--quiet'', ''--json''] @ env_args c"

subsection \<open>Removal\<close>

text \<open>\<^verbatim>\<open>str.split(sep)\<close> for a one-character separator; it never returns the empty list.\<close>

fun py_split :: "char \<Rightarrow> string \<Rightarrow> string list" where
  "py_split sep [] = [[]]"
| "py_split sep (ch # cs) =
     (if ch = sep then [] # py_split sep cs
      else (case py_split sep cs of
              w # ws \<Rightarrow> (ch # w) # ws
            | [] \<Rightarrow> [[ch]]))"

text \<open>\<^verbatim>\<open>[pkg.split("=")[0].lower() for pkg in packages]\<close>\<close>

definition packages_names :: "runtime \<Rightarrow> string list \<Rightarrow> string list" where
  "packages_names rt packages =
     map (\<lambda>pkg. str_lower rt (hd (py_split CHR ''='' pkg))) packages"

text \<open>
  \<^verbatim>\<open>set(installed_packages) & set(packages_names)\<close>. Building a set of the installed
  names raises \<^verbatim>\<open>TypeError\<close> when one of them is a list or a dict. A name that is not
  a string equals no string, so the intersection holds strings only.
\<close>

fun hashable :: "json \<Rightarrow> bool" where
  "hashable (JArr xs) = False"
| "hashable (JObj kvs) = False"
| "hashable _ = True"

fun str_values :: "json list \<Rightarrow> string list" where
  "str_values [] = []"
| "str_values (JStr s # js) = s # str_values js"
| "str_values (j # js) = str_values js"

definition packages_to_remove ::
  "runtime \<Rightarrow> json list \<Rightarrow> string list \<Rightarrow> error + string list" where
  "packages_to_remove rt installed_packages packages =
     (let names = packages_names rt packages in
      if list_all hashable installed_packages
      then Inr (filter (\<lambda>n. n \<in> set names) (remdups (str_values installed_packages)))
      else Inl TypeError)"

definition remove ::
  "runtime \<Rightarrow> conda \<Rightarrow> string list \<Rightarrow> string list list
     \<Rightarrow> (error + result) \<times> string list list" where
  "remove rt c packages log =
     (case list_packages rt c log of
        (Inl e, log1) \<Rightarrow> (Inl e, log1)
      | (Inr installed_packages, log1) \<Rightarrow>
          (case packages_to_remove rt installed_packages packages of
             Inl e \<Rightarrow> (Inl e, log1)
           | Inr to_remove \<Rightarrow>
               if to_remove \<noteq> []
               then run_conda rt c ''remove'' (set_iter rt to_remove) True True log1
               else (Inr \<lparr>res_changed = False, res_cmd = CmdStr '''', res_rc = 0,
                          res_stdout_json = JObj [], res_stderr = ''''\<rparr>, log1)))"

subsection \<open>The removal set as the specification words it\<close>

text \<open>
  The specification's reading of the removal set, for comparison with
  \<open>packages_to_remove\<close>: both the installed names and the requested specifiers are
  reduced to bare lowercase names (what stands at or after the version separator
  \<open>=\<close> is dropped) before the two are intersected.
\<close>

definition spec_bare_name :: "runtime \<Rightarrow> string \<Rightarrow> string" where
  "spec_bare_name rt s = str_lower rt (takeWhile (\<lambda>ch. ch \<noteq> CHR ''='') s)"

definition spec_packages_to_remove ::
  "runtime \<Rightarrow> string list \<Rightarrow> string list \<Rightarrow> string list" where
  "spec_packages_to_remove rt installed packages =
     filter (\<lambda>n. n \<in> set (map (spec_bare_name rt) packages))
       (remdups (map (spec_bare_name rt) installed))"

section \<open>The entry point\<close>

text \<open>
  \<^verbatim>\<open>run_module\<close>: the result is what \<^verbatim>\<open>exit_json\<close> reports, or the failure that ended
  the run, together with the invocations made. The argument specification admits the
  three states only, so the branch in which no test of the chain holds, where
  \<^verbatim>\<open>result\<close> would be unbound, is never taken.
\<close>

definition run_module ::
  "runtime \<Rightarrow> ansible_module \<Rightarrow> (error + result) \<times> string list list" where
  "run_module rt m =
     (let st = param_state m; packages = param_name m in
      case init rt m of
        Inl e \<Rightarrow> (Inl e, [])
      | Inr c \<Rightarrow>
          if st = Present then
            (case env_exists rt c [] of
               (Inl e, log1) \<Rightarrow> (Inl e, log1)
             | (Inr ex, log1) \<Rightarrow>
                 if ex then install rt c packages log1 else create rt c packages log1)
          else if st = Latest then
            (case env_exists rt c [] of
               (Inl e, log1) \<Rightarrow> (Inl e, log1)
             | (Inr ex, log1) \<Rightarrow>
                 if ex then update rt c packages log1 else create rt c packages log1)
          else if st = Absent then remove rt c packages []
          else (Inl UnboundLocalError, []))"

section \<open>The fixtures of the unit tests\<close>

text \<open>
  \<^verbatim>\<open>test/units/modules/packaging/os/test_conda.py\<close> runs the class against a
  \<^verbatim>\<open>FakeModule\<close> with environment \<^verbatim>\<open>myenv\<close>, executable \<^verbatim>\<open>/mypath/conda\<close>, no
  channels and a \<^verbatim>\<open>run_command\<close> that answers \<^verbatim>\<open>0, "{}", ""\<close>. The tool of the
  fixture below answers a \<^verbatim>\<open>list\<close> invocation with a given exit code and the JSON
  text of a list of package records, and everything else as the tests' mock does.
\<close>

definition quoted :: "string \<Rightarrow> string" where
  "quoted s = [CHR 0x22] @ s @ [CHR 0x22]"

fun records_text :: "string list \<Rightarrow> string" where
  "records_text [] = []"
| "records_text [n] = ''{'' @ quoted ''name'' @ '': '' @ quoted n @ ''}''"
| "records_text (n # ns) =
     ''{'' @ quoted ''name'' @ '': '' @ quoted n @ ''}, '' @ records_text ns"

definition list_text :: "string list \<Rightarrow> string" where
  "list_text ns = ''['' @ records_text ns @ '']''"

definition list_value :: "string list \<Rightarrow> json" where
  "list_value ns = JArr (map (\<lambda>n. JObj [(''name'', JStr n)]) ns)"

text \<open>
  Two package names outside ASCII, in UTF-8: \<^verbatim>\<open>Ecole\<close> with a capital E acute
  (U+00C9, the bytes C3 89) and with a small one (U+00E9, the bytes C3 A9).
\<close>

definition Ecole_capital :: string where
  "Ecole_capital = [CHR 0xC3, CHR 0x89] @ ''cole''"

definition ecole_small :: string where
  "ecole_small = [CHR 0xC3, CHR 0xA9] @ ''cole''"

text \<open>What \<^verbatim>\<open>json.loads\<close> returns on the texts the fixtures print; no other text is used.\<close>

definition fake_loads :: "string \<Rightarrow> json option" where
  "fake_loads =
     map_of ((''{}'', JObj []) #
             map (\<lambda>ns. (list_text ns, list_value ns))
               [[''flask'', ''bar''], [''python'', ''bar''], [''bar''], [''Python''],
                [Ecole_capital], [ecole_small]])"

text \<open>
  What \<^verbatim>\<open>str.lower\<close> returns on the texts the fixtures use, which hold ASCII and
  Latin-1 characters only: the letters A to Z, and the capitals U+00C0 to U+00DE
  (the bytes C3 80 to C3 9E) other than the multiplication sign U+00D7, move to their
  small letters, 32 places up; every other character is kept.
\<close>

definition fake_lower_ascii :: "char \<Rightarrow> char" where
  "fake_lower_ascii ch =
     (let n = (of_char ch :: nat) in if 65 \<le> n \<and> n \<le> 90 then char_of (n + 32) else ch)"

fun fake_lower :: "string \<Rightarrow> string" where
  "fake_lower [] = []"
| "fake_lower [ch] = [fake_lower_ascii ch]"
| "fake_lower (ch # d # cs) =
     (let n = (of_char d :: nat) in
      if ch = CHR 0xC3 \<and> 128 \<le> n \<and> n \<le> 158 \<and> n \<noteq> 151
      then ch # char_of (n + 32) # fake_lower cs
      else fake_lower_ascii ch # fake_lower (d # cs))"

definition posix :: runtime where
  "posix = \<lparr>os_path_sep = CHR ''/'', json_loads = fake_loads, str_lower = fake_lower,
             set_iter = (\<lambda>xs. xs)\<rparr>"

definition fake_conda_tool ::
  "int \<Rightarrow> string \<Rightarrow> string list list \<Rightarrow> string list \<Rightarrow> int \<times> string \<times> string" where
  "fake_conda_tool list_rc list_stdout log cmd =
     (if take 1 (drop 1 cmd) = [''list''] then (list_rc, list_stdout, '''')
      else (0, ''{}'', ''''))"

definition FakeModule :: ansible_module where
  "FakeModule =
     \<lparr>param_name = [], param_state = Present, param_executable = Some ''/mypath/conda'',
      param_environment = ''myenv'', param_channels = [], check_mode = False,
      get_bin_path = None, run_command = (\<lambda>log cmd. (0, ''{}'', ''''))\<rparr>"

text \<open>The tests' fixture \<^verbatim>\<open>conda_default\<close>, the object \<^verbatim>\<open>Conda(FakeModule())\<close>.\<close>

definition conda_default :: conda where
  "conda_default =
     \<lparr>module = FakeModule, executable = ''/mypath/conda'', environment = ''myenv'',
      env_args = [''--name'', ''myenv''], default_args = [''-y'', ''--name'', ''myenv'']\<rparr>"

section \<open>Auxiliary facts\<close>

lemma init_FakeModule: "init posix FakeModule = Inr conda_default"
  by (simp add: init_def posix_def FakeModule_def conda_default_def Let_def)

lemma changed_error: "changed j = Inl e \<Longrightarrow> e = TypeError"
  by (cases j) (simp_all add: changed_def)

lemma run_conda_eq:
  assumes "v = [executable c, cmd, ''--quiet'', ''--json'']
                 @ (if a then default_args c else []) @ args"
      and "run_command (module c) log v = (rc, out, err)"
  shows "run_conda rt c cmd args f a log =
           (if f \<and> rc \<noteq> 0 then Inl (FailJson v ''Command failed'' (Some rc) out err)
            else (case json_loads rt out of
                    None \<Rightarrow> Inl (FailJson v ''Failed to parse the output of the command''
                                   None out err)
                  | Some j \<Rightarrow>
                      (case changed j of
                         Inl e \<Rightarrow> Inl e
                       | Inr ch \<Rightarrow> Inr \<lparr>res_changed = ch, res_cmd = CmdList v, res_rc = rc,
                                          res_stdout_json = j, res_stderr = err\<rparr>)),
            log @ [v])"
  using assms
  by (cases a) (simp_all add: run_conda_def Let_def split: option.splits sum.splits)

lemma env_exists_eq:
  assumes "run_command (module c) log (listing_cmd c) = (rc, out, err)"
  shows "env_exists rt c log =
           (case json_loads rt out of
              None \<Rightarrow> Inl (FailJson (listing_cmd c)
                             ''Failed to parse the output of the command'' None out err)
            | Some j \<Rightarrow> (case changed j of Inl e \<Rightarrow> Inl e | Inr ch \<Rightarrow> Inr (rc = 0)),
            log @ [listing_cmd c])"
  using run_conda_eq [of "listing_cmd c" c "''list''" False "env_args c" log rc out err rt False]
    assms
  by (simp add: env_exists_def split: option.splits sum.splits)

lemma channel_args_foldl:
  "foldl (\<lambda>acc channel. acc @ [''--channel'', channel]) a chs =
     a @ concat (map (\<lambda>channel. [''--channel'', channel]) chs)"
  by (induction chs arbitrary: a) simp_all

lemma init_fields:
  assumes "init rt m = Inr c"
  shows "module c = m"
    and "environment c = param_environment m"
    and "env_args c =
           [if os_path_sep rt \<in> set (param_environment m) then ''--prefix'' else ''--name'',
            param_environment m]"
    and "default_args c =
           ''-y'' # env_args c
             @ concat (map (\<lambda>channel. [''--channel'', channel]) (param_channels m))
             @ (if check_mode m then [''--dry-run''] else [])"
  using assms
  by (auto simp: init_def Let_def channel_args_foldl split: option.splits if_splits)

lemma init_executable:
  "init rt m = Inr c \<Longrightarrow> param_executable m = Some e \<Longrightarrow> e \<noteq> [] \<Longrightarrow> executable c = e"
  by (auto simp: init_def Let_def split: option.splits if_splits)

lemma run_conda_log:
  "snd (run_conda rt c cmd args f a log) =
     log @ [[executable c, cmd, ''--quiet'', ''--json'']
              @ (if a then default_args c else []) @ args]"
  by (simp add: run_conda_def Let_def split: prod.splits option.splits sum.splits)

lemma py_split_not_Nil: "py_split sep s \<noteq> []"
  by (induction s) (simp_all split: list.splits)

lemma hd_py_split: "hd (py_split sep s) = takeWhile (\<lambda>ch. ch \<noteq> sep) s"
proof (induction s)
  case Nil
  show ?case by simp
next
  case (Cons a s)
  then show ?case
    by (cases "py_split sep s") (simp_all add: py_split_not_Nil)
qed

lemma set_str_values: "set (str_values js) = {n. JStr n \<in> set js}"
  by (induction js rule: str_values.induct) auto

lemma list_packages_log: "snd (list_packages rt c log) = log @ [listing_cmd c]"
  using run_conda_log [of rt c "''list''" "env_args c" True False log]
  by (auto simp: list_packages_def split: prod.splits sum.splits)

lemma env_exists_log: "snd (env_exists rt c log) = log @ [listing_cmd c]"
  using run_conda_log [of rt c "''list''" "env_args c" False False log]
  by (auto simp: env_exists_def split: prod.splits sum.splits)

lemma fake_loads_empty_object: "json_loads posix ''{}'' = Some (JObj [])"
  by (simp add: posix_def fake_loads_def)

lemma install_log:
  "snd (install rt c packages log) =
     log @ [[executable c, ''install'', ''--quiet'', ''--json''] @ default_args c
              @ ''-S'' # packages]"
  by (simp add: install_def run_conda_log)

lemma run_conda_res_cmd:
  "fst (run_conda rt c cmd args f a log) = Inr r \<Longrightarrow>
     res_cmd r = CmdList ([executable c, cmd, ''--quiet'', ''--json'']
                            @ (if a then default_args c else []) @ args)"
  by (cases a)
     (auto simp: run_conda_def Let_def split: prod.splits option.splits sum.splits if_splits)

lemma run_module_eq:
  assumes "init rt m = Inr c"
  shows "run_module rt m =
     (case param_state m of
        Present \<Rightarrow>
          (case env_exists rt c [] of
             (Inl e, log1) \<Rightarrow> (Inl e, log1)
           | (Inr ex, log1) \<Rightarrow>
               if ex then install rt c (param_name m) log1
               else create rt c (param_name m) log1)
      | Latest \<Rightarrow>
          (case env_exists rt c [] of
             (Inl e, log1) \<Rightarrow> (Inl e, log1)
           | (Inr ex, log1) \<Rightarrow>
               if ex then update rt c (param_name m) log1
               else create rt c (param_name m) log1)
      | Absent \<Rightarrow> remove rt c (param_name m) [])"
  using assms by (cases "param_state m") (simp_all add: run_module_def Let_def)

lemma init_fake:
  fixes st ns f
  shows "init posix (FakeModule\<lparr>param_state := st, param_name := ns, run_command := f\<rparr>)
     = Inr (conda_default\<lparr>module := FakeModule\<lparr>param_state := st, param_name := ns,
                                                  run_command := f\<rparr>\<rparr>)"
  by (simp add: init_def posix_def FakeModule_def conda_default_def Let_def)

lemmas fake_eval =
  env_exists_def install_def update_def create_def remove_def list_packages_def
  run_conda_def conda_default_def FakeModule_def fake_conda_tool_def
  fake_loads_empty_object changed_def Let_def

lemma packages_names_bare:
  "packages_names rt packages =
     map (\<lambda>pkg. str_lower rt (takeWhile (\<lambda>ch. ch \<noteq> CHR ''='') pkg)) packages"
  by (simp add: packages_names_def hd_py_split)

lemma packages_to_remove_set:
  assumes "list_all hashable installed"
  shows "\<exists>xs. packages_to_remove rt installed packages = Inr xs \<and> distinct xs
           \<and> set xs = {n. JStr n \<in> set installed} \<inter> set (packages_names rt packages)"
  using assms by (auto simp: packages_to_remove_def set_str_values)

lemma fake_lower_letters:
  "fake_lower ''ABCDEFGHIJKLMNOPQRSTUVWXYZ'' = ''abcdefghijklmnopqrstuvwxyz''
   \<and> fake_lower ''abcxyz0123456789_-.=<>!*'' = ''abcxyz0123456789_-.=<>!*''
   \<and> fake_lower ''PyYAML'' = ''pyyaml''
   \<and> fake_lower Ecole_capital = ecole_small
   \<and> fake_lower ecole_small = ecole_small
   \<and> fake_lower [CHR 0xC3, CHR 0x97] = [CHR 0xC3, CHR 0x97]
   \<and> fake_lower [CHR 0xC3, CHR 0x9F] = [CHR 0xC3, CHR 0x9F]"
  by code_simp

lemma remove_eq:
  assumes "list_packages rt c log = (Inr installed, log1)"
      and "packages_to_remove rt installed packages = Inr xs"
  shows "remove rt c packages log =
           (if xs \<noteq> [] then run_conda rt c ''remove'' (set_iter rt xs) True True log1
            else (Inr \<lparr>res_changed = False, res_cmd = CmdStr '''', res_rc = 0,
                       res_stdout_json = JObj [], res_stderr = ''''\<rparr>, log1))"
  using assms by (simp add: remove_def)

lemma distinct_singleton: "distinct xs \<Longrightarrow> set xs = {a} \<Longrightarrow> xs = [a]"
proof (cases xs)
  case Nil
  assume "set xs = {a}"
  with Nil show ?thesis by simp
next
  case (Cons y ys)
  assume d: "distinct xs" and s: "set xs = {a}"
  from s Cons have ya: "y = a" by auto
  from d Cons have "y \<notin> set ys" by simp
  moreover from s Cons have "set ys \<subseteq> {a}" by auto
  ultimately have "ys = []" using ya by (cases ys) auto
  with Cons ya show ?thesis by simp
qed

lemma update_log:
  "snd (update rt c packages log) =
     log @ [[executable c, ''update'', ''--quiet'', ''--json''] @ default_args c @ packages]"
  by (simp add: update_def run_conda_log)

lemma create_log:
  "snd (create rt c packages log) =
     log @ [[executable c, ''create'', ''--quiet'', ''--json''] @ default_args c @ packages]"
  by (simp add: create_def run_conda_log)

lemma remove_log_cases:
  "snd (remove rt c packages log) = log @ [listing_cmd c]
   \<or> (\<exists>args. snd (remove rt c packages log) =
         log @ [listing_cmd c,
                [executable c, ''remove'', ''--quiet'', ''--json''] @ default_args c @ args])"
proof (cases "list_packages rt c log")
  case (Pair res log1)
  from list_packages_log [of rt c log] Pair have l1: "log1 = log @ [listing_cmd c]"
    by simp
  show ?thesis
  proof (cases res)
    case (Inl e)
    with Pair l1 show ?thesis
      by (simp add: remove_def)
  next
    case (Inr installed)
    show ?thesis
    proof (cases "packages_to_remove rt installed packages")
      case (Inl e)
      with Pair Inr l1 show ?thesis
        by (simp add: remove_def)
    next
      case inner: (Inr xs)
      from Pair Inr have l: "list_packages rt c log = (Inr installed, log1)"
        by simp
      from remove_eq [OF l inner] l1
        run_conda_log [of rt c "''remove''" "set_iter rt xs" True True log1]
      show ?thesis
        by (cases "xs = []") auto
    qed
  qed
qed

section \<open>Properties\<close>

text \<open>
  C1. For every JSON object given to the change classifier, the result is "changed"
  exactly when the object has an \<^verbatim>\<open>actions\<close> key, whatever the value stored under
  it; an object without that key is classified "unchanged". The classifier never
  fails on an object.
\<close>

theorem changed_iff_actions_key:
  "changed (JObj kvs) = Inr (\<exists>v. (''actions'', v) \<in> set kvs)"
  by (force simp: changed_def)

text \<open>
  C5. For every environment identifier, the environment selector is the pair
  \<^verbatim>\<open>--prefix <id>\<close> when the identifier contains the path separator and
  \<^verbatim>\<open>--name <id>\<close> otherwise.
\<close>

theorem env_args_selector:
  "init rt m = Inr c \<Longrightarrow>
     env_args c =
       [if os_path_sep rt \<in> set (param_environment m) then ''--prefix'' else ''--name'',
        param_environment m]"
  by (rule init_fields)

text \<open>The three identifiers of the claim, on a platform whose separator is \<open>/\<close>.\<close>

theorem env_args_selector_witness:
  "(case init posix (FakeModule\<lparr>param_environment := ''myenv''\<rparr>) of
      Inr c \<Rightarrow> env_args c = [''--name'', ''myenv''] | Inl e \<Rightarrow> False)
   \<and> (case init posix (FakeModule\<lparr>param_environment := ''./myenv''\<rparr>) of
      Inr c \<Rightarrow> env_args c = [''--prefix'', ''./myenv''] | Inl e \<Rightarrow> False)
   \<and> (case init posix (FakeModule\<lparr>param_environment := ''/opt/x''\<rparr>) of
      Inr c \<Rightarrow> env_args c = [''--prefix'', ''/opt/x''] | Inl e \<Rightarrow> False)"
proof -
  have ex: "\<exists>c. init posix (FakeModule\<lparr>param_environment := env\<rparr>) = Inr c" for env
    by (simp add: init_def FakeModule_def Let_def)
  have sel: "case init posix (FakeModule\<lparr>param_environment := env\<rparr>) of
               Inr c \<Rightarrow> env_args c = [if CHR ''/'' \<in> set env then ''--prefix'' else ''--name'', env]
             | Inl e \<Rightarrow> False" for env
  proof -
    from ex obtain c where i: "init posix (FakeModule\<lparr>param_environment := env\<rparr>) = Inr c"
      by blast
    from env_args_selector [OF i] i show ?thesis
      by (simp add: posix_def)
  qed
  have "CHR ''/'' \<notin> set ''myenv''" "CHR ''/'' \<in> set ''./myenv''" "CHR ''/'' \<in> set ''/opt/x''"
    by simp_all
  with sel [of "''myenv''"] sel [of "''./myenv''"] sel [of "''/opt/x''"] show ?thesis
    by presburger
qed

text \<open>
  C6. The existence check invokes the listing subcommand with the environment
  selector only: the vector holds the executable, \<^verbatim>\<open>list\<close>, the two output flags
  and the selector, and no default argument. It never fails with
  \<^verbatim>\<open>Command failed\<close>, whatever the exit code. Whenever it returns, it returns
  whether the exit code is 0; and it does return whenever the standard output
  parses to a value the change classifier accepts (an object, as the tool prints).
\<close>

theorem env_exists_probe:
  "run_command (module c) log (listing_cmd c) = (rc, out, err) \<Longrightarrow>
     snd (env_exists rt c log) = log @ [listing_cmd c]
     \<and> (\<forall>v r so se. fst (env_exists rt c log) \<noteq> Inl (FailJson v ''Command failed'' r so se))
     \<and> (\<forall>b. fst (env_exists rt c log) = Inr b \<longrightarrow> b = (rc = 0))
     \<and> (\<forall>j ch. json_loads rt out = Some j \<longrightarrow> changed j = Inr ch \<longrightarrow>
           fst (env_exists rt c log) = Inr (rc = 0))"
  by (auto simp: env_exists_eq split: option.splits sum.splits dest: changed_error)

text \<open>Exit codes 0, 1 and 127 with the output \<^verbatim>\<open>{}\<close>, as in the unit test.\<close>

theorem env_exists_probe_witness:
  "env_exists posix (conda_default\<lparr>module := FakeModule\<lparr>run_command := (\<lambda>log cmd. (0, ''{}'', ''''))\<rparr>\<rparr>) []
     = (Inr True, [[''/mypath/conda'', ''list'', ''--quiet'', ''--json'', ''--name'', ''myenv'']])
   \<and> env_exists posix (conda_default\<lparr>module := FakeModule\<lparr>run_command := (\<lambda>log cmd. (1, ''{}'', ''''))\<rparr>\<rparr>) []
     = (Inr False, [[''/mypath/conda'', ''list'', ''--quiet'', ''--json'', ''--name'', ''myenv'']])
   \<and> env_exists posix (conda_default\<lparr>module := FakeModule\<lparr>run_command := (\<lambda>log cmd. (127, ''{}'', ''''))\<rparr>\<rparr>) []
     = (Inr False, [[''/mypath/conda'', ''list'', ''--quiet'', ''--json'', ''--name'', ''myenv'']])"
proof -
  have ch: "changed (JObj []) = Inr False"
    by (simp add: changed_def)
  have probe: "env_exists posix (conda_default\<lparr>module := FakeModule\<lparr>run_command := (\<lambda>log cmd. (rc, ''{}'', ''''))\<rparr>\<rparr>) []
     = (Inr (rc = 0), [[''/mypath/conda'', ''list'', ''--quiet'', ''--json'', ''--name'', ''myenv'']])" for rc
  proof -
    let ?c = "conda_default\<lparr>module := FakeModule\<lparr>run_command := (\<lambda>log cmd. (rc, ''{}'', ''''))\<rparr>\<rparr>"
    have r: "run_command (module ?c) [] (listing_cmd ?c) = (rc, ''{}'', '''')"
      by simp
    note probe = env_exists_probe [OF r, of posix]
    from probe have a: "snd (env_exists posix ?c []) = [listing_cmd ?c]"
      by simp
    from probe fake_loads_empty_object ch
    have b: "fst (env_exists posix ?c []) = Inr (rc = 0)"
      by blast
    from a b have "env_exists posix ?c [] = (Inr (rc = 0), [listing_cmd ?c])"
      by (simp add: prod_eq_iff)
    then show ?thesis
      by (simp add: conda_default_def)
  qed
  from probe [of 0] probe [of 1] probe [of 127] show ?thesis
    by simp
qed

text \<open>
  C7. The install operation builds the vector of the executable, \<^verbatim>\<open>install\<close>, the
  two output flags, the default arguments, \<^verbatim>\<open>-S\<close> and the specifiers as given; the
  result it returns reports that vector. For the packages \<^verbatim>\<open>foo=1.0\<close> and
  \<^verbatim>\<open>bar\<close>, the environment \<^verbatim>\<open>myenv\<close>, the executable \<^verbatim>\<open>/mypath/conda\<close>, no channels
  and no check mode, the vector is the one the claim lists.
\<close>

theorem install_command_vector:
  "init rt m = Inr c \<Longrightarrow>
     snd (install rt c packages log) =
       log @ [[executable c, ''install'', ''--quiet'', ''--json''] @ default_args c
                @ [''-S''] @ packages]
     \<and> (\<forall>r. fst (install rt c packages log) = Inr r \<longrightarrow>
           res_cmd r = CmdList ([executable c, ''install'', ''--quiet'', ''--json'']
                                  @ default_args c @ [''-S''] @ packages))
     \<and> (os_path_sep rt = CHR ''/'' \<longrightarrow> param_executable m = Some ''/mypath/conda'' \<longrightarrow>
          param_environment m = ''myenv'' \<longrightarrow> param_channels m = [] \<longrightarrow> \<not> check_mode m \<longrightarrow>
          snd (install rt c [''foo=1.0'', ''bar''] log) =
            log @ [[''/mypath/conda'', ''install'', ''--quiet'', ''--json'', ''-y'', ''--name'',
                    ''myenv'', ''-S'', ''foo=1.0'', ''bar'']])"
proof (intro conjI allI impI)
  show "snd (install rt c packages log) =
       log @ [[executable c, ''install'', ''--quiet'', ''--json''] @ default_args c
                @ [''-S''] @ packages]"
    by (simp add: install_log)
next
  fix r assume "fst (install rt c packages log) = Inr r"
  then show "res_cmd r = CmdList ([executable c, ''install'', ''--quiet'', ''--json'']
                                  @ default_args c @ [''-S''] @ packages)"
    using run_conda_res_cmd [of rt c "''install''" "''-S'' # packages" True True log r]
    by (simp add: install_def)
next
  assume i: "init rt m = Inr c"
    and "os_path_sep rt = CHR ''/''" "param_executable m = Some ''/mypath/conda''"
    "param_environment m = ''myenv''" "param_channels m = []" "\<not> check_mode m"
  then show "snd (install rt c [''foo=1.0'', ''bar''] log) =
            log @ [[''/mypath/conda'', ''install'', ''--quiet'', ''--json'', ''-y'', ''--name'',
                    ''myenv'', ''-S'', ''foo=1.0'', ''bar'']]"
    using init_fields [OF i] init_executable [OF i, of "''/mypath/conda''"]
    by (simp add: install_log)
qed

text \<open>With the tests' fixture the operation succeeds and returns that vector.\<close>

theorem install_command_vector_witness:
  "init posix FakeModule = Inr conda_default
   \<and> install posix conda_default [''foo=1.0'', ''bar''] []
     = (Inr \<lparr>res_changed = False,
             res_cmd = CmdList [''/mypath/conda'', ''install'', ''--quiet'', ''--json'', ''-y'',
                                ''--name'', ''myenv'', ''-S'', ''foo=1.0'', ''bar''],
             res_rc = 0, res_stdout_json = JObj [], res_stderr = ''''\<rparr>,
        [[''/mypath/conda'', ''install'', ''--quiet'', ''--json'', ''-y'', ''--name'',
          ''myenv'', ''-S'', ''foo=1.0'', ''bar'']])"
proof -
  note inst = install_command_vector [OF init_FakeModule, of "[''foo=1.0'', ''bar'']" "[]"]
  have f: "os_path_sep posix = CHR ''/''" "param_executable FakeModule = Some ''/mypath/conda''"
    "param_environment FakeModule = ''myenv''" "param_channels FakeModule = []"
    "\<not> check_mode FakeModule"
    by (simp_all add: posix_def FakeModule_def)
  from inst f have "snd (install posix conda_default [''foo=1.0'', ''bar''] []) =
     [] @ [[''/mypath/conda'', ''install'', ''--quiet'', ''--json'', ''-y'', ''--name'',
            ''myenv'', ''-S'', ''foo=1.0'', ''bar'']]"
    by blast
  then have l: "snd (install posix conda_default [''foo=1.0'', ''bar''] []) =
     [[''/mypath/conda'', ''install'', ''--quiet'', ''--json'', ''-y'', ''--name'',
       ''myenv'', ''-S'', ''foo=1.0'', ''bar'']]"
    by simp
  have r: "fst (install posix conda_default [''foo=1.0'', ''bar''] []) =
     Inr \<lparr>res_changed = False,
             res_cmd = CmdList [''/mypath/conda'', ''install'', ''--quiet'', ''--json'', ''-y'',
                                ''--name'', ''myenv'', ''-S'', ''foo=1.0'', ''bar''],
             res_rc = 0, res_stdout_json = JObj [], res_stderr = ''''\<rparr>"
    by (simp add: install_def run_conda_def conda_default_def FakeModule_def
        fake_loads_empty_object changed_def Let_def)
  from l r init_FakeModule show ?thesis
    by (simp add: prod_eq_iff)
qed

text \<open>
  C10. The invocation wrapper parses the standard output even when it was told not
  to fail on the exit code. So when the output of the existence probe is not JSON,
  the probe ends with the parse failure, whatever its exit code, and for the states
  \<^verbatim>\<open>present\<close> and \<^verbatim>\<open>latest\<close> the whole run ends with it after that one invocation.
\<close>

theorem probe_parse_failure_aborts:
  "init rt m = Inr c \<Longrightarrow> run_command m [] (listing_cmd c) = (rc, out, err) \<Longrightarrow>
   json_loads rt out = None \<Longrightarrow>
     env_exists rt c [] =
       (Inl (FailJson (listing_cmd c) ''Failed to parse the output of the command'' None out err),
        [listing_cmd c])
     \<and> (param_state m = Present \<or> param_state m = Latest \<longrightarrow>
          run_module rt m =
            (Inl (FailJson (listing_cmd c) ''Failed to parse the output of the command'' None
                    out err),
             [listing_cmd c]))"
proof -
  assume i: "init rt m = Inr c"
    and r: "run_command m [] (listing_cmd c) = (rc, out, err)"
    and l: "json_loads rt out = None"
  from i have mc: "module c = m"
    by (rule init_fields)
  from r mc have "run_command (module c) [] (listing_cmd c) = (rc, out, err)"
    by simp
  from env_exists_eq [OF this, of rt] l
  have e: "env_exists rt c [] =
       (Inl (FailJson (listing_cmd c) ''Failed to parse the output of the command'' None out err),
        [listing_cmd c])"
    by simp
  from e run_module_eq [OF i] show ?thesis
    by auto
qed

text \<open>A probe that exits with 1 and prints a plain message.\<close>

theorem probe_parse_failure_aborts_witness:
  "init posix (FakeModule\<lparr>run_command := (\<lambda>log cmd. (1, ''EnvironmentLocationNotFound'', ''''))\<rparr>)
     = Inr (conda_default\<lparr>module := FakeModule\<lparr>run_command := (\<lambda>log cmd. (1, ''EnvironmentLocationNotFound'', ''''))\<rparr>\<rparr>)
   \<and> json_loads posix ''EnvironmentLocationNotFound'' = None
   \<and> run_module posix
         (FakeModule\<lparr>run_command := (\<lambda>log cmd. (1, ''EnvironmentLocationNotFound'', ''''))\<rparr>)
     = (Inl (FailJson [''/mypath/conda'', ''list'', ''--quiet'', ''--json'', ''--name'', ''myenv'']
               ''Failed to parse the output of the command'' None
               ''EnvironmentLocationNotFound'' ''''),
        [[''/mypath/conda'', ''list'', ''--quiet'', ''--json'', ''--name'', ''myenv'']])"
proof -
  let ?m = "FakeModule\<lparr>run_command := (\<lambda>log cmd. (1, ''EnvironmentLocationNotFound'', ''''))\<rparr>"
  let ?c = "conda_default\<lparr>module := ?m\<rparr>"
  have i: "init posix ?m = Inr ?c"
    by (simp add: init_def posix_def FakeModule_def conda_default_def Let_def)
  have r: "run_command ?m [] (listing_cmd ?c) = (1, ''EnvironmentLocationNotFound'', '''')"
    by simp
  have l: "json_loads posix ''EnvironmentLocationNotFound'' = None"
    by (simp add: posix_def fake_loads_def list_text_def)
  have s: "param_state ?m = Present"
    by (simp add: FakeModule_def)
  from probe_parse_failure_aborts [OF i r l] s
  have "run_module posix ?m =
     (Inl (FailJson (listing_cmd ?c) ''Failed to parse the output of the command'' None
             ''EnvironmentLocationNotFound'' ''''), [listing_cmd ?c])"
    by blast
  with i l show ?thesis
    by (simp add: conda_default_def)
qed

text \<open>
  C4. The dispatch of \<^verbatim>\<open>run_module\<close> on the desired state. \<^verbatim>\<open>present\<close> probes the
  environment and installs when it exists, creates otherwise; \<^verbatim>\<open>latest\<close> probes and
  updates when it exists, creates otherwise; \<^verbatim>\<open>absent\<close> removes straight away, with
  no invocation before \<open>remove\<close> starts. A failure of the probe ends the run.
\<close>

theorem run_module_dispatch:
  "init rt m = Inr c \<Longrightarrow>
     (param_state m = Present \<longrightarrow>
        run_module rt m =
          (case env_exists rt c [] of
             (Inl e, log1) \<Rightarrow> (Inl e, log1)
           | (Inr ex, log1) \<Rightarrow>
               if ex then install rt c (param_name m) log1
               else create rt c (param_name m) log1))
     \<and> (param_state m = Latest \<longrightarrow>
        run_module rt m =
          (case env_exists rt c [] of
             (Inl e, log1) \<Rightarrow> (Inl e, log1)
           | (Inr ex, log1) \<Rightarrow>
               if ex then update rt c (param_name m) log1
               else create rt c (param_name m) log1))
     \<and> (param_state m = Absent \<longrightarrow> run_module rt m = remove rt c (param_name m) [])"
  by (simp add: run_module_eq)

text \<open>
  The invocations of five runs: both states with a probe that exits with 0 and with
  1, and \<^verbatim>\<open>absent\<close> with a listing that exits with 1, which fails the run instead of
  selecting a branch.
\<close>

theorem run_module_dispatch_witness:
  "snd (run_module posix (FakeModule\<lparr>param_state := Present, param_name := [''foo=1.0'', ''bar''],
                                      run_command := fake_conda_tool 0 ''{}''\<rparr>))
     = [[''/mypath/conda'', ''list'', ''--quiet'', ''--json'', ''--name'', ''myenv''],
        [''/mypath/conda'', ''install'', ''--quiet'', ''--json'', ''-y'', ''--name'', ''myenv'',
         ''-S'', ''foo=1.0'', ''bar'']]
   \<and> snd (run_module posix (FakeModule\<lparr>param_state := Present, param_name := [''foo=1.0'', ''bar''],
                                      run_command := fake_conda_tool 1 ''{}''\<rparr>))
     = [[''/mypath/conda'', ''list'', ''--quiet'', ''--json'', ''--name'', ''myenv''],
        [''/mypath/conda'', ''create'', ''--quiet'', ''--json'', ''-y'', ''--name'', ''myenv'',
         ''foo=1.0'', ''bar'']]
   \<and> snd (run_module posix (FakeModule\<lparr>param_state := Latest, param_name := [''foo'', ''bar''],
                                      run_command := fake_conda_tool 0 ''{}''\<rparr>))
     = [[''/mypath/conda'', ''list'', ''--quiet'', ''--json'', ''--name'', ''myenv''],
        [''/mypath/conda'', ''update'', ''--quiet'', ''--json'', ''-y'', ''--name'', ''myenv'',
         ''foo'', ''bar'']]
   \<and> snd (run_module posix (FakeModule\<lparr>param_state := Latest, param_name := [''foo'', ''bar''],
                                      run_command := fake_conda_tool 1 ''{}''\<rparr>))
     = [[''/mypath/conda'', ''list'', ''--quiet'', ''--json'', ''--name'', ''myenv''],
        [''/mypath/conda'', ''create'', ''--quiet'', ''--json'', ''-y'', ''--name'', ''myenv'',
         ''foo'', ''bar'']]
   \<and> run_module posix (FakeModule\<lparr>param_state := Absent, param_name := [''foo'', ''bar''],
                                      run_command := fake_conda_tool 1 ''{}''\<rparr>)
     = (Inl (FailJson [''/mypath/conda'', ''list'', ''--quiet'', ''--json'', ''--name'', ''myenv'']
               ''Command failed'' (Some 1) ''{}'' ''''),
        [[''/mypath/conda'', ''list'', ''--quiet'', ''--json'', ''--name'', ''myenv'']])"
proof -
  have p0: "snd (run_module posix (FakeModule\<lparr>param_state := Present, param_name := [''foo=1.0'', ''bar''],
                                      run_command := fake_conda_tool 0 ''{}''\<rparr>))
     = [[''/mypath/conda'', ''list'', ''--quiet'', ''--json'', ''--name'', ''myenv''],
        [''/mypath/conda'', ''install'', ''--quiet'', ''--json'', ''-y'', ''--name'', ''myenv'',
         ''-S'', ''foo=1.0'', ''bar'']]"
    using run_module_dispatch [OF init_fake [where st = Present and ns = "[''foo=1.0'', ''bar'']" and f = "fake_conda_tool 0 ''{}''"]]
    by (simp add: fake_eval)
  have p1: "snd (run_module posix (FakeModule\<lparr>param_state := Present, param_name := [''foo=1.0'', ''bar''],
                                      run_command := fake_conda_tool 1 ''{}''\<rparr>))
     = [[''/mypath/conda'', ''list'', ''--quiet'', ''--json'', ''--name'', ''myenv''],
        [''/mypath/conda'', ''create'', ''--quiet'', ''--json'', ''-y'', ''--name'', ''myenv'',
         ''foo=1.0'', ''bar'']]"
    using run_module_dispatch [OF init_fake [where st = Present and ns = "[''foo=1.0'', ''bar'']" and f = "fake_conda_tool 1 ''{}''"]]
    by (simp add: fake_eval)
  have l0: "snd (run_module posix (FakeModule\<lparr>param_state := Latest, param_name := [''foo'', ''bar''],
                                      run_command := fake_conda_tool 0 ''{}''\<rparr>))
     = [[''/mypath/conda'', ''list'', ''--quiet'', ''--json'', ''--name'', ''myenv''],
        [''/mypath/conda'', ''update'', ''--quiet'', ''--json'', ''-y'', ''--name'', ''myenv'',
         ''foo'', ''bar'']]"
    using run_module_dispatch [OF init_fake [where st = Latest and ns = "[''foo'', ''bar'']" and f = "fake_conda_tool 0 ''{}''"]]
    by (simp add: fake_eval)
  have l1: "snd (run_module posix (FakeModule\<lparr>param_state := Latest, param_name := [''foo'', ''bar''],
                                      run_command := fake_conda_tool 1 ''{}''\<rparr>))
     = [[''/mypath/conda'', ''list'', ''--quiet'', ''--json'', ''--name'', ''myenv''],
        [''/mypath/conda'', ''create'', ''--quiet'', ''--json'', ''-y'', ''--name'', ''myenv'',
         ''foo'', ''bar'']]"
    using run_module_dispatch [OF init_fake [where st = Latest and ns = "[''foo'', ''bar'']" and f = "fake_conda_tool 1 ''{}''"]]
    by (simp add: fake_eval)
  have a1: "run_module posix (FakeModule\<lparr>param_state := Absent, param_name := [''foo'', ''bar''],
                                      run_command := fake_conda_tool 1 ''{}''\<rparr>)
     = (Inl (FailJson [''/mypath/conda'', ''list'', ''--quiet'', ''--json'', ''--name'', ''myenv'']
               ''Command failed'' (Some 1) ''{}'' ''''),
        [[''/mypath/conda'', ''list'', ''--quiet'', ''--json'', ''--name'', ''myenv'']])"
    using run_module_dispatch [OF init_fake [where st = Absent and ns = "[''foo'', ''bar'']" and f = "fake_conda_tool 1 ''{}''"]]
    by (simp add: fake_eval)
  from p0 p1 l0 l1 a1 show ?thesis
    by blast
qed

text \<open>
  C2, as stated, fails: the installed names are not normalised. With \<^verbatim>\<open>Python\<close>
  installed and \<^verbatim>\<open>python\<close> requested the removal set of the code is empty, while
  the set the specification describes holds \<^verbatim>\<open>python\<close>; the run removes nothing.
\<close>

theorem installed_names_not_normalized:
  "packages_to_remove posix [JStr ''Python''] [''python''] = Inr []
   \<and> spec_packages_to_remove posix [''Python''] [''python''] = [''python'']
   \<and> run_module posix
         (FakeModule\<lparr>param_state := Absent, param_name := [''python''],
                      run_command := fake_conda_tool 0 (list_text [''Python''])\<rparr>)
     = (Inr \<lparr>res_changed = False, res_cmd = CmdStr [], res_rc = 0,
             res_stdout_json = JObj [], res_stderr = []\<rparr>,
        [[''/mypath/conda'', ''list'', ''--quiet'', ''--json'', ''--name'', ''myenv'']])"
  by code_simp

text \<open>
  C2, amended. For every list of requested specifiers and every list of installed
  names (none of them a list or a dict), the removal set holds each member once and
  is the intersection of the installed names that are strings, taken as the tool
  reports them, with the requested specifiers reduced to bare lowercase names: the
  text before the first \<open>=\<close>, put in lower case by \<^verbatim>\<open>str.lower\<close>, whatever the
  characters of the specifier are.
\<close>

theorem requested_specifiers_normalized:
  "list_all hashable installed \<Longrightarrow>
     (\<exists>xs. packages_to_remove rt installed packages = Inr xs \<and> distinct xs
        \<and> set xs = {n. JStr n \<in> set installed}
                   \<inter> (\<lambda>pkg. str_lower rt (takeWhile (\<lambda>ch. ch \<noteq> CHR ''='') pkg)) ` set packages)"
  using packages_to_remove_set [where installed = installed and rt = rt and packages = packages]
  by (simp add: packages_names_bare)

text \<open>
  Three requests: pinned specifiers with capitals against names in either case; the
  capitalised name outside ASCII against itself, which the lower-casing of the request
  alone makes miss; and that name, pinned, against its lower-case form.
\<close>

theorem requested_specifiers_normalized_witness:
  "packages_to_remove posix [JStr ''python'', JStr ''Flask'', JInt 3, JStr ''pyyaml'']
       [''Python=3.7'', ''flask=1.0'']
     = Inr [''python'']
   \<and> packages_to_remove posix [JStr Ecole_capital] [Ecole_capital] = Inr []
   \<and> packages_to_remove posix [JStr ecole_small] [Ecole_capital @ ''=1''] = Inr [ecole_small]"
proof -
  have one: "packages_to_remove posix installed packages = Inr [a]"
    if "list_all hashable installed"
      and "{n. JStr n \<in> set installed}
             \<inter> (\<lambda>pkg. str_lower posix (takeWhile (\<lambda>ch. ch \<noteq> CHR ''='') pkg)) ` set packages
           = {a}"
    for installed packages a
  proof -
    from requested_specifiers_normalized [OF that(1), of posix packages]
    obtain xs where x: "packages_to_remove posix installed packages = Inr xs"
      and d: "distinct xs"
      and s: "set xs = {n. JStr n \<in> set installed}
                \<inter> (\<lambda>pkg. str_lower posix (takeWhile (\<lambda>ch. ch \<noteq> CHR ''='') pkg))
                    ` set packages"
      by blast
    from s that(2) have "set xs = {a}"
      by simp
    with d have "xs = [a]"
      by (rule distinct_singleton)
    with x show ?thesis
      by simp
  qed
  have none: "packages_to_remove posix installed packages = Inr []"
    if "list_all hashable installed"
      and "{n. JStr n \<in> set installed}
             \<inter> (\<lambda>pkg. str_lower posix (takeWhile (\<lambda>ch. ch \<noteq> CHR ''='') pkg)) ` set packages
           = {}"
    for installed packages
  proof -
    from requested_specifiers_normalized [OF that(1), of posix packages]
    obtain xs where x: "packages_to_remove posix installed packages = Inr xs"
      and s: "set xs = {n. JStr n \<in> set installed}
                \<inter> (\<lambda>pkg. str_lower posix (takeWhile (\<lambda>ch. ch \<noteq> CHR ''='') pkg))
                    ` set packages"
      by blast
    from s that(2) have "xs = []"
      by simp
    with x show ?thesis
      by simp
  qed
  have n1: "str_lower posix (takeWhile (\<lambda>ch. ch \<noteq> CHR ''='') ''Python=3.7'') = ''python''"
    by code_simp
  have n2: "str_lower posix (takeWhile (\<lambda>ch. ch \<noteq> CHR ''='') ''flask=1.0'') = ''flask''"
    by code_simp
  have n3: "str_lower posix (takeWhile (\<lambda>ch. ch \<noteq> CHR ''='') Ecole_capital) = ecole_small"
    by code_simp
  have n4: "str_lower posix (takeWhile (\<lambda>ch. ch \<noteq> CHR ''='') (Ecole_capital @ ''=1''))
              = ecole_small"
    by code_simp
  have ne: "Ecole_capital \<noteq> ecole_small"
    by code_simp
  have i1: "(\<lambda>pkg. str_lower posix (takeWhile (\<lambda>ch. ch \<noteq> CHR ''='') pkg))
              ` set [''Python=3.7'', ''flask=1.0''] = {''python'', ''flask''}"
    by (simp only: list.set image_insert image_empty n1 n2)
  have i2: "(\<lambda>pkg. str_lower posix (takeWhile (\<lambda>ch. ch \<noteq> CHR ''='') pkg))
              ` set [Ecole_capital] = {ecole_small}"
    by (simp only: list.set image_insert image_empty n3)
  have i3: "(\<lambda>pkg. str_lower posix (takeWhile (\<lambda>ch. ch \<noteq> CHR ''='') pkg))
              ` set [Ecole_capital @ ''=1''] = {ecole_small}"
    by (simp only: list.set image_insert image_empty n4)
  have a: "packages_to_remove posix [JStr ''python'', JStr ''Flask'', JInt 3, JStr ''pyyaml'']
             [''Python=3.7'', ''flask=1.0''] = Inr [''python'']"
    by (rule one) (simp, unfold i1, auto)
  have b: "packages_to_remove posix [JStr Ecole_capital] [Ecole_capital] = Inr []"
    by (rule none) (simp, unfold i2, use ne in auto)
  have c: "packages_to_remove posix [JStr ecole_small] [Ecole_capital @ ''=1'']
             = Inr [ecole_small]"
    by (rule one) (simp, unfold i3, auto)
  from a b c show ?thesis
    by blast
qed

text \<open>
  C3, as stated, fails: \<open>remove\<close> reads the installed packages with a listing
  invocation before it can tell that the intersection is empty. With \<^verbatim>\<open>flask\<close> and
  \<^verbatim>\<open>bar\<close> installed and \<^verbatim>\<open>foo\<close> and \<^verbatim>\<open>Python\<close> requested the intersection is empty
  and one invocation has been made.
\<close>

theorem remove_absent_packages_still_lists:
  "packages_to_remove posix [JStr ''flask'', JStr ''bar''] [''foo'', ''Python''] = Inr []
   \<and> run_module posix
         (FakeModule\<lparr>param_state := Absent, param_name := [''foo'', ''Python''],
                      run_command := fake_conda_tool 0 (list_text [''flask'', ''bar''])\<rparr>)
     = (Inr \<lparr>res_changed = False, res_cmd = CmdStr [], res_rc = 0,
             res_stdout_json = JObj [], res_stderr = []\<rparr>,
        [[''/mypath/conda'', ''list'', ''--quiet'', ''--json'', ''--name'', ''myenv'']])
   \<and> snd (run_module posix
         (FakeModule\<lparr>param_state := Absent, param_name := [''foo'', ''Python''],
                      run_command := fake_conda_tool 0 (list_text [''flask'', ''bar''])\<rparr>))
     \<noteq> []"
  by code_simp

text \<open>
  C3, amended. For every remove request whose listing succeeds and whose normalised
  specifiers (the text before the first \<open>=\<close>, put in lower case by \<^verbatim>\<open>str.lower\<close>) have
  an empty intersection with the installed names, the listing query is the only
  invocation made, no remove invocation follows, and the result is the made-up
  unchanged one: not changed, the empty string as command, exit code 0, the empty
  object as structured output, the empty error text.
\<close>

theorem remove_nothing_to_do:
  "list_packages rt c log = (Inr installed, log1) \<Longrightarrow> list_all hashable installed \<Longrightarrow>
   {n. JStr n \<in> set installed} \<inter> set (packages_names rt packages) = {} \<Longrightarrow>
     remove rt c packages log =
       (Inr \<lparr>res_changed = False, res_cmd = CmdStr '''', res_rc = 0,
              res_stdout_json = JObj [], res_stderr = ''''\<rparr>,
        log @ [listing_cmd c])"
proof -
  assume l: "list_packages rt c log = (Inr installed, log1)"
    and h: "list_all hashable installed"
    and e: "{n. JStr n \<in> set installed} \<inter> set (packages_names rt packages) = {}"
  from packages_to_remove_set [OF h, where rt = rt and packages = packages] e
  have p: "packages_to_remove rt installed packages = Inr []"
    by auto
  from list_packages_log [of rt c log] l have "log1 = log @ [listing_cmd c]"
    by simp
  with remove_eq [OF l p] show ?thesis
    by simp
qed

text \<open>
  The request of the unit test, and the request for the capitalised name outside
  ASCII when the tool reports that name with its capital.
\<close>

theorem remove_nothing_to_do_witness:
  "list_packages posix
     (conda_default\<lparr>module := FakeModule\<lparr>run_command :=
                                   fake_conda_tool 0 (list_text [''flask'', ''bar''])\<rparr>\<rparr>) []
     = (Inr [JStr ''flask'', JStr ''bar''],
        [[''/mypath/conda'', ''list'', ''--quiet'', ''--json'', ''--name'', ''myenv'']])
   \<and> remove posix
     (conda_default\<lparr>module := FakeModule\<lparr>run_command :=
                                   fake_conda_tool 0 (list_text [''flask'', ''bar''])\<rparr>\<rparr>)
     [''foo'', ''Python''] []
     = (Inr \<lparr>res_changed = False, res_cmd = CmdStr '''', res_rc = 0,
              res_stdout_json = JObj [], res_stderr = ''''\<rparr>,
        [[''/mypath/conda'', ''list'', ''--quiet'', ''--json'', ''--name'', ''myenv'']])
   \<and> remove posix
     (conda_default\<lparr>module := FakeModule\<lparr>run_command :=
                                   fake_conda_tool 0 (list_text [Ecole_capital])\<rparr>\<rparr>)
     [Ecole_capital] []
     = (Inr \<lparr>res_changed = False, res_cmd = CmdStr '''', res_rc = 0,
              res_stdout_json = JObj [], res_stderr = ''''\<rparr>,
        [[''/mypath/conda'', ''list'', ''--quiet'', ''--json'', ''--name'', ''myenv'']])"
proof -
  let ?c = "conda_default\<lparr>module := FakeModule\<lparr>run_command :=
                                   fake_conda_tool 0 (list_text [''flask'', ''bar''])\<rparr>\<rparr>"
  let ?d = "conda_default\<lparr>module := FakeModule\<lparr>run_command :=
                                   fake_conda_tool 0 (list_text [Ecole_capital])\<rparr>\<rparr>"
  have l: "list_packages posix ?c []
     = (Inr [JStr ''flask'', JStr ''bar''],
        [[''/mypath/conda'', ''list'', ''--quiet'', ''--json'', ''--name'', ''myenv'']])"
    by code_simp
  have h: "list_all hashable [JStr ''flask'', JStr ''bar'']"
    by simp
  have n: "packages_names posix [''foo'', ''Python''] = [''foo'', ''python'']"
    by code_simp
  have e: "{n. JStr n \<in> set [JStr ''flask'', JStr ''bar'']}
             \<inter> set (packages_names posix [''foo'', ''Python'']) = {}"
    unfolding n by auto
  have v: "listing_cmd ?c = [''/mypath/conda'', ''list'', ''--quiet'', ''--json'', ''--name'', ''myenv'']"
    by (simp add: conda_default_def)
  have l': "list_packages posix ?d []
     = (Inr [JStr Ecole_capital],
        [[''/mypath/conda'', ''list'', ''--quiet'', ''--json'', ''--name'', ''myenv'']])"
    by code_simp
  have h': "list_all hashable [JStr Ecole_capital]"
    by simp
  have n': "packages_names posix [Ecole_capital] = [ecole_small]"
    by code_simp
  have ne: "Ecole_capital \<noteq> ecole_small"
    by code_simp
  have e': "{n. JStr n \<in> set [JStr Ecole_capital]}
              \<inter> set (packages_names posix [Ecole_capital]) = {}"
    unfolding n' using ne by auto
  have v': "listing_cmd ?d = [''/mypath/conda'', ''list'', ''--quiet'', ''--json'', ''--name'', ''myenv'']"
    by (simp add: conda_default_def)
  from remove_nothing_to_do [OF l h e] remove_nothing_to_do [OF l' h' e'] l show ?thesis
    unfolding v v' by simp
qed

text \<open>
  C8. For every remove request whose listing succeeds and whose normalised
  specifiers (the text before the first \<open>=\<close>, put in lower case by \<^verbatim>\<open>str.lower\<close>) have
  a non-empty intersection with the installed names, the listing query is followed by
  exactly one \<^verbatim>\<open>remove\<close> invocation. Its vector is the executable, \<^verbatim>\<open>remove\<close>, the two
  output flags, the default arguments and then the members of the intersection, each
  once, in the order in which the runtime iterates over the set; the specifiers as
  given do not appear.
\<close>

theorem remove_invokes_intersection:
  "list_packages rt c log = (Inr installed, log1) \<Longrightarrow> list_all hashable installed \<Longrightarrow>
   {n. JStr n \<in> set installed} \<inter> set (packages_names rt packages) \<noteq> {} \<Longrightarrow>
   (\<forall>xs. distinct xs \<longrightarrow> distinct (set_iter rt xs) \<and> set (set_iter rt xs) = set xs) \<Longrightarrow>
     (\<exists>args. snd (remove rt c packages log) =
               log @ [listing_cmd c,
                      [executable c, ''remove'', ''--quiet'', ''--json''] @ default_args c @ args]
        \<and> distinct args
        \<and> set args = {n. JStr n \<in> set installed} \<inter> set (packages_names rt packages))"
proof -
  assume l: "list_packages rt c log = (Inr installed, log1)"
    and h: "list_all hashable installed"
    and ne: "{n. JStr n \<in> set installed} \<inter> set (packages_names rt packages) \<noteq> {}"
    and it: "\<forall>xs. distinct xs \<longrightarrow> distinct (set_iter rt xs) \<and> set (set_iter rt xs) = set xs"
  from packages_to_remove_set [OF h, where rt = rt and packages = packages]
  obtain xs where p: "packages_to_remove rt installed packages = Inr xs"
    and d: "distinct xs"
    and s: "set xs = {n. JStr n \<in> set installed} \<inter> set (packages_names rt packages)"
    by blast
  from s ne have nn: "xs \<noteq> []"
    by auto
  from list_packages_log [of rt c log] l have l1: "log1 = log @ [listing_cmd c]"
    by simp
  from remove_eq [OF l p] nn
  have "remove rt c packages log = run_conda rt c ''remove'' (set_iter rt xs) True True log1"
    by simp
  with run_conda_log [of rt c "''remove''" "set_iter rt xs" True True log1] l1
  have "snd (remove rt c packages log) =
          log @ [listing_cmd c,
                 [executable c, ''remove'', ''--quiet'', ''--json''] @ default_args c
                   @ set_iter rt xs]"
    by simp
  moreover from it d have "distinct (set_iter rt xs)" and "set (set_iter rt xs) = set xs"
    by blast+
  ultimately show ?thesis
    using s by blast
qed

text \<open>
  \<^verbatim>\<open>remove(["foo", "Python"])\<close> with \<^verbatim>\<open>python\<close> and \<^verbatim>\<open>bar\<close> installed: the positional
  arguments are exactly \<^verbatim>\<open>python\<close>. And the pinned, capitalised name outside ASCII
  with its lower-case form installed: the positional argument is the lower-case form.
\<close>

theorem remove_invokes_intersection_witness:
  "list_packages posix
     (conda_default\<lparr>module := FakeModule\<lparr>run_command :=
                                   fake_conda_tool 0 (list_text [''python'', ''bar''])\<rparr>\<rparr>) []
     = (Inr [JStr ''python'', JStr ''bar''],
        [[''/mypath/conda'', ''list'', ''--quiet'', ''--json'', ''--name'', ''myenv'']])
   \<and> snd (remove posix
     (conda_default\<lparr>module := FakeModule\<lparr>run_command :=
                                   fake_conda_tool 0 (list_text [''python'', ''bar''])\<rparr>\<rparr>)
     [''foo'', ''Python''] [])
     = [[''/mypath/conda'', ''list'', ''--quiet'', ''--json'', ''--name'', ''myenv''],
        [''/mypath/conda'', ''remove'', ''--quiet'', ''--json'', ''-y'', ''--name'', ''myenv'',
         ''python'']]
   \<and> snd (remove posix
     (conda_default\<lparr>module := FakeModule\<lparr>run_command :=
                                   fake_conda_tool 0 (list_text [ecole_small])\<rparr>\<rparr>)
     [Ecole_capital @ ''=1''] [])
     = [[''/mypath/conda'', ''list'', ''--quiet'', ''--json'', ''--name'', ''myenv''],
        [''/mypath/conda'', ''remove'', ''--quiet'', ''--json'', ''-y'', ''--name'', ''myenv'',
         ecole_small]]"
proof -
  have it: "\<forall>xs. distinct xs \<longrightarrow> distinct (set_iter posix xs) \<and> set (set_iter posix xs) = set xs"
    by (simp add: posix_def)
  have run: "snd (remove posix c packages []) =
               [listing_cmd c,
                [executable c, ''remove'', ''--quiet'', ''--json''] @ default_args c @ [a]]"
    if l: "list_packages posix c [] = (Inr installed, log1)"
      and h: "list_all hashable installed"
      and i: "{n. JStr n \<in> set installed} \<inter> set (packages_names posix packages) = {a}"
    for c packages installed log1 a
  proof -
    from i have ne: "{n. JStr n \<in> set installed} \<inter> set (packages_names posix packages) \<noteq> {}"
      by simp
    from remove_invokes_intersection [OF l h ne it]
    obtain args where s: "snd (remove posix c packages []) =
               [] @ [listing_cmd c,
                      [executable c, ''remove'', ''--quiet'', ''--json''] @ default_args c @ args]"
      and d: "distinct args"
      and a: "set args = {n. JStr n \<in> set installed} \<inter> set (packages_names posix packages)"
      by blast
    from a i have "set args = {a}"
      by simp
    with d have "args = [a]"
      by (rule distinct_singleton)
    with s show ?thesis
      by simp
  qed
  let ?c = "conda_default\<lparr>module := FakeModule\<lparr>run_command :=
                                   fake_conda_tool 0 (list_text [''python'', ''bar''])\<rparr>\<rparr>"
  let ?d = "conda_default\<lparr>module := FakeModule\<lparr>run_command :=
                                   fake_conda_tool 0 (list_text [ecole_small])\<rparr>\<rparr>"
  have l: "list_packages posix ?c []
     = (Inr [JStr ''python'', JStr ''bar''],
        [[''/mypath/conda'', ''list'', ''--quiet'', ''--json'', ''--name'', ''myenv'']])"
    by code_simp
  have h: "list_all hashable [JStr ''python'', JStr ''bar'']"
    by simp
  have n: "packages_names posix [''foo'', ''Python''] = [''foo'', ''python'']"
    by code_simp
  have i: "{n. JStr n \<in> set [JStr ''python'', JStr ''bar'']}
             \<inter> set (packages_names posix [''foo'', ''Python'']) = {''python''}"
    unfolding n by auto
  have l': "list_packages posix ?d []
     = (Inr [JStr ecole_small],
        [[''/mypath/conda'', ''list'', ''--quiet'', ''--json'', ''--name'', ''myenv'']])"
    by code_simp
  have h': "list_all hashable [JStr ecole_small]"
    by simp
  have n': "packages_names posix [Ecole_capital @ ''=1''] = [ecole_small]"
    by code_simp
  have i': "{n. JStr n \<in> set [JStr ecole_small]}
             \<inter> set (packages_names posix [Ecole_capital @ ''=1'']) = {ecole_small}"
    unfolding n' by auto
  from run [OF l h i] run [OF l' h' i'] l show ?thesis
    by (simp add: conda_default_def)
qed

text \<open>
  C9, as stated, fails: in check mode \<open>remove\<close> first generates the listing query,
  which is built without the default arguments and so without the dry-run flag.
\<close>

theorem remove_listing_has_no_dry_run:
  "check_mode (FakeModule\<lparr>param_state := Absent, param_name := [''foo'', ''bar''],
                           check_mode := True,
                           run_command := fake_conda_tool 0 (list_text [''bar''])\<rparr>)
   \<and> snd (run_module posix
         (FakeModule\<lparr>param_state := Absent, param_name := [''foo'', ''bar''],
                      check_mode := True,
                      run_command := fake_conda_tool 0 (list_text [''bar''])\<rparr>))
     = [[''/mypath/conda'', ''list'', ''--quiet'', ''--json'', ''--name'', ''myenv''],
        [''/mypath/conda'', ''remove'', ''--quiet'', ''--json'', ''-y'', ''--name'', ''myenv'',
         ''--dry-run'', ''bar'']]
   \<and> ''--dry-run'' \<notin> set [''/mypath/conda'', ''list'', ''--quiet'', ''--json'', ''--name'',
                             ''myenv'']"
  by code_simp

text \<open>
  C9, amended. In check mode the vector of every \<^verbatim>\<open>install\<close>, \<^verbatim>\<open>update\<close>,
  \<^verbatim>\<open>create\<close> and \<^verbatim>\<open>remove\<close> invocation includes \<^verbatim>\<open>--dry-run\<close>: each of the first three
  operations makes one invocation, of its own subcommand, with the flag; \<open>remove\<close>
  makes the listing query, built from the selector alone, and then at most one
  \<^verbatim>\<open>remove\<close> invocation, with the flag.
\<close>

theorem dry_run_flag:
  "init rt m = Inr c \<Longrightarrow> check_mode m \<Longrightarrow>
     (\<exists>v. snd (install rt c packages log) = log @ [v]
           \<and> take 2 v = [executable c, ''install''] \<and> ''--dry-run'' \<in> set v)
     \<and> (\<exists>v. snd (update rt c packages log) = log @ [v]
           \<and> take 2 v = [executable c, ''update''] \<and> ''--dry-run'' \<in> set v)
     \<and> (\<exists>v. snd (create rt c packages log) = log @ [v]
           \<and> take 2 v = [executable c, ''create''] \<and> ''--dry-run'' \<in> set v)
     \<and> (snd (remove rt c packages log) = log @ [listing_cmd c]
        \<or> (\<exists>v. snd (remove rt c packages log) = log @ [listing_cmd c, v]
              \<and> take 2 v = [executable c, ''remove''] \<and> ''--dry-run'' \<in> set v))"
proof -
  assume i: "init rt m = Inr c" and ch: "check_mode m"
  from init_fields(4) [OF i] ch have f: "''--dry-run'' \<in> set (default_args c)"
    by simp
  have a: "\<exists>v. snd (install rt c packages log) = log @ [v]
           \<and> take 2 v = [executable c, ''install''] \<and> ''--dry-run'' \<in> set v"
    using f by (simp add: install_log)
  have b: "\<exists>v. snd (update rt c packages log) = log @ [v]
           \<and> take 2 v = [executable c, ''update''] \<and> ''--dry-run'' \<in> set v"
    using f by (simp add: update_log)
  have d: "\<exists>v. snd (create rt c packages log) = log @ [v]
           \<and> take 2 v = [executable c, ''create''] \<and> ''--dry-run'' \<in> set v"
    using f by (simp add: create_log)
  have e: "snd (remove rt c packages log) = log @ [listing_cmd c]
        \<or> (\<exists>v. snd (remove rt c packages log) = log @ [listing_cmd c, v]
              \<and> take 2 v = [executable c, ''remove''] \<and> ''--dry-run'' \<in> set v)"
    using remove_log_cases [of rt c packages log] f by auto
  from a b d e show ?thesis
    by blast
qed

text \<open>The unit test of the dry run: \<^verbatim>\<open>bar\<close> installed, \<^verbatim>\<open>foo\<close> and \<^verbatim>\<open>bar\<close> given.\<close>

theorem dry_run_flag_witness:
  "init posix (FakeModule\<lparr>check_mode := True,
                           run_command := fake_conda_tool 0 (list_text [''bar''])\<rparr>)
     = Inr (conda_default\<lparr>module := FakeModule\<lparr>check_mode := True,
                               run_command := fake_conda_tool 0 (list_text [''bar''])\<rparr>,
                           default_args := [''-y'', ''--name'', ''myenv'', ''--dry-run'']\<rparr>)
   \<and> ''--dry-run'' \<in> set (last (snd (install posix
         (conda_default\<lparr>module := FakeModule\<lparr>check_mode := True,
                               run_command := fake_conda_tool 0 (list_text [''bar''])\<rparr>,
                         default_args := [''-y'', ''--name'', ''myenv'', ''--dry-run'']\<rparr>)
         [''foo'', ''bar''] [])))
   \<and> ''--dry-run'' \<in> set (last (snd (update posix
         (conda_default\<lparr>module := FakeModule\<lparr>check_mode := True,
                               run_command := fake_conda_tool 0 (list_text [''bar''])\<rparr>,
                         default_args := [''-y'', ''--name'', ''myenv'', ''--dry-run'']\<rparr>)
         [''foo'', ''bar''] [])))
   \<and> ''--dry-run'' \<in> set (last (snd (create posix
         (conda_default\<lparr>module := FakeModule\<lparr>check_mode := True,
                               run_command := fake_conda_tool 0 (list_text [''bar''])\<rparr>,
                         default_args := [''-y'', ''--name'', ''myenv'', ''--dry-run'']\<rparr>)
         [''foo'', ''bar''] [])))
   \<and> snd (remove posix
         (conda_default\<lparr>module := FakeModule\<lparr>check_mode := True,
                               run_command := fake_conda_tool 0 (list_text [''bar''])\<rparr>,
                         default_args := [''-y'', ''--name'', ''myenv'', ''--dry-run'']\<rparr>)
         [''foo'', ''bar''] [])
     = [[''/mypath/conda'', ''list'', ''--quiet'', ''--json'', ''--name'', ''myenv''],
        [''/mypath/conda'', ''remove'', ''--quiet'', ''--json'', ''-y'', ''--name'', ''myenv'',
         ''--dry-run'', ''bar'']]"
proof -
  let ?m = "FakeModule\<lparr>check_mode := True,
                       run_command := fake_conda_tool 0 (list_text [''bar''])\<rparr>"
  let ?c = "conda_default\<lparr>module := ?m,
                           default_args := [''-y'', ''--name'', ''myenv'', ''--dry-run'']\<rparr>"
  have i: "init posix ?m = Inr ?c"
    by (simp add: init_def posix_def FakeModule_def conda_default_def Let_def)
  have ch: "check_mode ?m"
    by simp
  note flag = dry_run_flag [OF i ch, of "[''foo'', ''bar'']" "[]"]
  from flag obtain v where "snd (install posix ?c [''foo'', ''bar''] []) = [] @ [v]"
    and "''--dry-run'' \<in> set v"
    by blast
  then have a: "''--dry-run'' \<in> set (last (snd (install posix ?c [''foo'', ''bar''] [])))"
    by simp
  from flag obtain v where "snd (update posix ?c [''foo'', ''bar''] []) = [] @ [v]"
    and "''--dry-run'' \<in> set v"
    by blast
  then have b: "''--dry-run'' \<in> set (last (snd (update posix ?c [''foo'', ''bar''] [])))"
    by simp
  from flag obtain v where "snd (create posix ?c [''foo'', ''bar''] []) = [] @ [v]"
    and "''--dry-run'' \<in> set v"
    by blast
  then have d: "''--dry-run'' \<in> set (last (snd (create posix ?c [''foo'', ''bar''] [])))"
    by simp
  have e: "snd (remove posix ?c [''foo'', ''bar''] [])
     = [[''/mypath/conda'', ''list'', ''--quiet'', ''--json'', ''--name'', ''myenv''],
        [''/mypath/conda'', ''remove'', ''--quiet'', ''--json'', ''-y'', ''--name'', ''myenv'',
         ''--dry-run'', ''bar'']]"
    by code_simp
  from i a b d e show ?thesis
    by blast
qed

end
